theory Spec2Isabelle
  imports Complex_Main "HOL-Library.Sublist"
begin

section \<open>Python values shared by the three scripts\<close>

text \<open>
  Exceptions are values. The constructors are the exception classes the scripts meet; all of
  them are subclasses of Python's \<^verbatim>\<open>Exception\<close>, so an \<^verbatim>\<open>except Exception\<close> clause catches
  each of them. \<^verbatim>\<open>OtherException m\<close> is any other exception whose \<^verbatim>\<open>str()\<close> is \<^verbatim>\<open>m\<close>.
  \<^verbatim>\<open>sys.exit(1)\<close> is not among them (\<^verbatim>\<open>SystemExit\<close> is no \<^verbatim>\<open>Exception\<close>); a run that ends
  abnormally ends with an \<^verbatim>\<open>abort\<close>.
\<close>

datatype exc =
    TimeoutException
  | NoSuchElementException
  | ZeroDivisionError
  | KeyError string
  | OSError string
  | OtherException string

datatype abort = SystemExit nat | Uncaught exc

definition nl :: string where
  "nl = [CHR 0x0A]"

text \<open>\<^verbatim>\<open>str(e)\<close>. Selenium's exceptions print as \<^verbatim>\<open>Message: \<close> followed by their message and a
  newline; the two that the auditor handles by class carry no message here.\<close>

fun str_exc :: "exc \<Rightarrow> string" where
  "str_exc TimeoutException = ''Message: '' @ nl"
| "str_exc NoSuchElementException = ''Message: '' @ nl"
| "str_exc ZeroDivisionError = ''division by zero''"
| "str_exc (KeyError k) = [CHR 0x27] @ k @ [CHR 0x27]"
| "str_exc (OSError m) = m"
| "str_exc (OtherException m) = m"

text \<open>The check mark U+2713 and the ballot cross U+2717, as their UTF-8 bytes.\<close>

definition check_mark :: string where
  "check_mark = [CHR 0xE2, CHR 0x9C, CHR 0x93]"

definition cross_mark :: string where
  "cross_mark = [CHR 0xE2, CHR 0x9C, CHR 0x97]"

text \<open>\<^verbatim>\<open>str(n)\<close> of a Python int.\<close>

definition digit :: "nat \<Rightarrow> char" where
  "digit n = ''0123456789'' ! (n mod 10)"

function str_nat :: "nat \<Rightarrow> string" where
  "str_nat n = (if n < 10 then [digit n] else str_nat (n div 10) @ [digit n])"
  by pat_completeness auto
termination
  by (relation "measure id") auto

declare str_nat.simps [simp del]

definition str_int :: "int \<Rightarrow> string" where
  "str_int i = (if i < 0 then ''-'' @ str_nat (nat (- i)) else str_nat (nat i))"

section \<open>Button-size scraper (scripts/collect-button-sizes.py)\<close>

text \<open>
  The scraper walks a source tree, cuts out every \<^verbatim>\<open><Button ...>\<close> opening tag with a
  regular expression, extracts the class string of the tag, and derives an expected height
  from that class string. The derivation of the height is a pure function of the collapsed
  class string \<^verbatim>\<open>cls_text\<close>; it is embedded here. Python's \<^verbatim>\<open>token in cls_text\<close>
  on strings is substring containment.
\<close>

primrec str_in :: "string \<Rightarrow> string \<Rightarrow> bool" where
  "str_in t [] = (t = [])"
| "str_in t (c # cs) = (prefix t (c # cs) \<or> str_in t cs)"

text \<open>The lookup table, in the insertion order of the dict literal (Python dicts iterate
  their keys in insertion order).\<close>

definition TW_H_MAP :: "(string \<times> string) list" where
  "TW_H_MAP =
    [(''h-4'', ''16px''),
     (''h-5'', ''20px''),
     (''h-6'', ''24px''),
     (''h-7'', ''28px''),
     (''h-8'', ''32px''),
     (''h-9'', ''36px''),
     (''h-10'', ''40px''),
     (''h-11'', ''44px'')]"

definition keys :: "('k \<times> 'v) list \<Rightarrow> 'k list" where
  "keys d = map fst d"

text \<open>\<^verbatim>\<open>d.get(k, default)\<close>.\<close>

definition dict_get :: "('k \<times> 'v) list \<Rightarrow> 'k \<Rightarrow> 'v \<Rightarrow> 'v" where
  "dict_get d k dflt = (case map_of d k of None \<Rightarrow> dflt | Some v \<Rightarrow> v)"

definition height_var :: string where
  "height_var = ''h-[var(--ui-button-height)]''"

definition h_var :: "string \<Rightarrow> bool" where
  "h_var cls_text = str_in height_var cls_text"

text \<open>The \<^verbatim>\<open>for token in TW_H_MAP.keys(): if token in cls_text: h_token = token; break\<close>
  loop: the first key, in table order, that occurs in the class string.\<close>

fun first_token :: "string list \<Rightarrow> string \<Rightarrow> string option" where
  "first_token [] cls_text = None"
| "first_token (token # rest) cls_text =
     (if str_in token cls_text then Some token else first_token rest cls_text)"

definition h_token :: "string \<Rightarrow> string option" where
  "h_token cls_text = first_token (keys TW_H_MAP) cls_text"

text \<open>Truthiness of \<^verbatim>\<open>h_token\<close> in \<^verbatim>\<open>elif h_token:\<close>: neither \<^verbatim>\<open>None\<close> nor the
  empty string.\<close>

definition truthy :: "string option \<Rightarrow> bool" where
  "truthy v = (case v of None \<Rightarrow> False | Some s \<Rightarrow> s \<noteq> [])"

definition var_height :: string where
  "var_height = ''32px (var(--ui-button-height))''"

definition default_height :: string where
  "default_height = ''button-variant-default (32px expected)''"

definition height_px :: "string \<Rightarrow> string" where
  "height_px cls_text =
     (if h_var cls_text then var_height
      else if truthy (h_token cls_text)
        then dict_get TW_H_MAP (the (h_token cls_text)) ''unknown''
      else default_height)"

text \<open>A class string split at single spaces: the standalone classes of a collapsed class
  string. Used only to say what a standalone token is.\<close>

fun split_sp :: "string \<Rightarrow> string \<Rightarrow> string list" where
  "split_sp acc [] = [rev acc]"
| "split_sp acc (c # cs) =
     (if c = CHR '' '' then rev acc # split_sp [] cs else split_sp (c # acc) cs)"

definition classes :: "string \<Rightarrow> string list" where
  "classes cls_text = split_sp [] cls_text"

section \<open>Typography verification stub (verify-typography.py)\<close>

definition EXPECTED_SIZES :: "(string \<times> string) list" where
  "EXPECTED_SIZES =
    [(''text-ui-xs'', ''12px''),
     (''text-ui-sm'', ''14px''),
     (''text-ui-md'', ''16px''),
     (''text-ui-lg'', ''18px''),
     (''text-ui-xl'', ''20px''),
     (''text-ui-2xl'', ''24px''),
     (''text-ui-3xl'', ''30px'')]"

record test_case =
  tc_component :: string
  tc_selector :: string
  tc_expected :: string

definition TEST_CASES :: "test_case list" where
  \<open>TEST_CASES =
    [\<lparr>tc_component = ''Button (default)'', tc_selector = ''button'',
        tc_expected = ''text-ui-sm''\<rparr>,
     \<lparr>tc_component = ''Badge'', tc_selector = ''.inline-flex.items-center.rounded-full'',
        tc_expected = ''text-ui-xs''\<rparr>,
     \<lparr>tc_component = ''Input Field'', tc_selector = ''input[type="text"]'',
        tc_expected = ''text-ui-md''\<rparr>,
     \<lparr>tc_component = ''Label'', tc_selector = ''label'',
        tc_expected = ''text-ui-sm''\<rparr>,
     \<lparr>tc_component = ''Dropdown Menu Item'', tc_selector = ''[role="menuitem"]'',
        tc_expected = ''text-ui-sm''\<rparr>,
     \<lparr>tc_component = ''Tab Trigger'', tc_selector = ''[role="tab"]'',
        tc_expected = ''text-ui-sm''\<rparr>,
     \<lparr>tc_component = ''Toast Title'', tc_selector = ''[data-title]'',
        tc_expected = ''text-ui-sm''\<rparr>,
     \<lparr>tc_component = ''Dialog Title'', tc_selector = ''h2[id*="dialog"]'',
        tc_expected = ''text-ui-lg''\<rparr>,
     \<lparr>tc_component = ''Compilation Output'',
        tc_selector = ''[data-testid="compilation-text"]'', tc_expected = ''text-ui-sm''\<rparr>,
     \<lparr>tc_component = ''Serial Monitor'', tc_selector = ''[data-testid="serial-output"]'',
        tc_expected = ''text-ui-xs''\<rparr>,
     \<lparr>tc_component = ''Parser Analysis Header'', tc_selector = ''.bg-muted .text-white'',
        tc_expected = ''text-ui-sm''\<rparr>]\<close>


text \<open>\<^verbatim>\<open>d[k]\<close>: a missing key raises \<^verbatim>\<open>KeyError\<close>.\<close>

definition dict_index :: "(string \<times> 'v) list \<Rightarrow> string \<Rightarrow> exc + 'v" where
  "dict_index d k = (case map_of d k of None \<Rightarrow> Inl (KeyError k) | Some v \<Rightarrow> Inr v)"

record result =
  res_component :: string
  expected_token :: string
  expected_size :: string
  actual_size :: string
  status :: string

definition pass_status :: string where
  "pass_status = check_mark @ '' PASS''"

definition fail_status :: string where
  "fail_status = cross_mark @ '' FAIL''"

text \<open>One iteration of the loop over the table: the expected size is read from the size
  table, the actual size is set to the expected size, and the comparison of the two gives
  the status.\<close>

definition check_case :: "test_case \<Rightarrow> exc + (result \<times> bool)" where
  "check_case test =
     (let component = tc_component test;
          token = tc_expected test
      in case dict_index EXPECTED_SIZES token of
           Inl e \<Rightarrow> Inl e
         | Inr size_expected \<Rightarrow>
             (let size_actual = size_expected;
                  passed = (size_actual = size_expected);
                  verdict = (if passed then pass_status else fail_status)
              in Inr (\<lparr>res_component = component, expected_token = token,
                        expected_size = size_expected, actual_size = size_actual,
                        status = verdict\<rparr>, passed)))"

text \<open>The loop over the table, with the accumulated results and the flag. An exception ends
  it; the results of the entries before it have been printed by then.\<close>

fun verify_loop ::
  "test_case list \<Rightarrow> result list \<Rightarrow> bool \<Rightarrow> result list \<times> bool \<times> exc option" where
  "verify_loop [] results all_pass = (results, all_pass, None)"
| "verify_loop (test # rest) results all_pass =
     (case check_case test of
        Inl e \<Rightarrow> (results, all_pass, Some e)
      | Inr (r, passed) \<Rightarrow> verify_loop rest (results @ [r]) (all_pass \<and> passed))"

definition summary_line :: "bool \<Rightarrow> string" where
  "summary_line all_pass =
     ''SUMMARY: '' @ (if all_pass then ''ALL TESTS PASSED '' @ check_mark
                      else ''SOME TESTS FAILED '' @ cross_mark)"

text \<open>The evidence written with \<^verbatim>\<open>json.dump\<close>.\<close>

record evidence =
  ev_timestamp :: string
  ev_url :: string
  ev_scale :: "(string \<times> string) list"
  ev_results :: "result list"
  ev_all_passed :: bool

definition evidence_path :: string where
  "evidence_path =
     ''/Users/to/sciebo/TT_Web/UNOWEBSIM_github_dupe/typography-verification-evidence.json''"

text \<open>The machine the stub runs on: what \<^verbatim>\<open>open(path, 'w')\<close> does for a path (\<^verbatim>\<open>None\<close>
  when the file is opened, the \<^verbatim>\<open>OSError\<close> otherwise), and the clock's
  \<^verbatim>\<open>time.strftime\<close> string.\<close>

record machine =
  open_w :: "string \<Rightarrow> exc option"
  strftime :: string

text \<open>What a run leaves behind: the status lines and the summary it printed, the evidence
  file when it was written, and how the call ended (the returned flag, or the exception that
  left \<^verbatim>\<open>verify_typography\<close>).\<close>

record stub_run =
  printed_results :: "result list"
  printed_summary :: "string option"
  evidence_file :: "evidence option"
  returned :: "exc + bool"

definition verify_typography :: "machine \<Rightarrow> stub_run" where
  "verify_typography m =
     (case verify_loop TEST_CASES [] True of
        (results, all_pass, Some e) \<Rightarrow>
          \<lparr>printed_results = results, printed_summary = None, evidence_file = None,
            returned = Inl e\<rparr>
      | (results, all_pass, None) \<Rightarrow>
          (case open_w m evidence_path of
             Some e \<Rightarrow>
               \<lparr>printed_results = results, printed_summary = Some (summary_line all_pass),
                 evidence_file = None, returned = Inl e\<rparr>
           | None \<Rightarrow>
               \<lparr>printed_results = results, printed_summary = Some (summary_line all_pass),
                 evidence_file =
                   Some \<lparr>ev_timestamp = strftime m, ev_url = ''http://localhost:3001'',
                          ev_scale = EXPECTED_SIZES, ev_results = results,
                          ev_all_passed = all_pass\<rparr>,
                 returned = Inr all_pass\<rparr>))"

text \<open>A machine on which the directory of the evidence path does not exist: every
  \<^verbatim>\<open>open(path, 'w')\<close> raises.\<close>

definition no_such_directory :: machine where
  "no_such_directory =
     \<lparr>open_w = (\<lambda>path. Some (OSError (''[Errno 2] No such file or directory: '' @ path))),
      strftime = ''2025-01-01 12:00:00''\<rparr>"

section \<open>Font-size auditor (archive/typography2/measure_font_sizes.py)\<close>

text \<open>
  The auditor drives a browser through Selenium. The browser, the file system and the clock are
  the environment of the run: every call into them is answered by a field of the record
  \<^verbatim>\<open>world\<close> below, and the claims are proved for every world. Python floats are modelled
  as exact rationals: \<^verbatim>\<open>round(x, 2)\<close> and the format specification \<^verbatim>\<open>.1f\<close> round to the
  nearest decimal with ties to the even digit, as Python does on the exact value of the
  float; the error of the binary representation itself and the negative zero are not
  modelled. Console output is left out.
\<close>

subsection \<open>Configuration and presets\<close>

definition FONT_SCALES :: "(string \<times> rat \<times> int) list" where
  "FONT_SCALES =
    [(''S'', 7 / 8, 12),
     (''M'', 1, 14),
     (''L'', 9 / 8, 16),
     (''XL'', 5 / 4, 18),
     (''XXL'', 3 / 2, 20)]"

text \<open>One object of the JSON configuration: \<^verbatim>\<open>name\<close> and \<^verbatim>\<open>selector\<close>, and an optional
  \<^verbatim>\<open>description\<close>.\<close>

record component =
  comp_name :: string
  comp_selector :: string
  comp_description :: "string option"

text \<open>What \<^verbatim>\<open>open\<close> and \<^verbatim>\<open>json.load\<close> find at the configuration path: no file,
  text that is not JSON, any other failure of the two calls, or the array of components.\<close>

datatype config_file =
    FileNotFoundError
  | JSONDecodeError string
  | ReadError exc
  | Loaded "component list"

text \<open>The two handled exceptions end the process with \<^verbatim>\<open>sys.exit(1)\<close>; any other one
  leaves \<^verbatim>\<open>load_selectors\<close>.\<close>

fun load_selectors :: "config_file \<Rightarrow> abort + component list" where
  "load_selectors (Loaded selectors) = Inr selectors"
| "load_selectors FileNotFoundError = Inl (SystemExit 1)"
| "load_selectors (JSONDecodeError e) = Inl (SystemExit 1)"
| "load_selectors (ReadError e) = Inl (Uncaught e)"

subsection \<open>Rounding and formatting of floats\<close>

definition round_half_even :: "rat \<Rightarrow> int" where
  "round_half_even x =
     (let f = \<lfloor>x\<rfloor>; d = x - of_int f
      in if d < 1 / 2 then f
         else if 1 / 2 < d then f + 1
         else if even f then f else f + 1)"

text \<open>\<^verbatim>\<open>round(x, 2)\<close>.\<close>

definition py_round2 :: "rat \<Rightarrow> rat" where
  "py_round2 x = of_int (round_half_even (x * 100)) / 100"

text \<open>\<^verbatim>\<open>f"{x:.1f}"\<close> and \<^verbatim>\<open>f"{x:+.1f}"\<close>.\<close>

definition fmt_1f :: "rat \<Rightarrow> string" where
  "fmt_1f x =
     (let q = nat (round_half_even (\<bar>x\<bar> * 10))
      in (if x < 0 then ''-'' else []) @ str_nat (q div 10) @ ''.'' @ [digit (q mod 10)])"

definition fmt_plus_1f :: "rat \<Rightarrow> string" where
  "fmt_plus_1f x = (if x < 0 then fmt_1f x else ''+'' @ fmt_1f x)"

subsection \<open>Measuring one element\<close>

text \<open>
  What the browser answers to the calls in the \<^verbatim>\<open>try\<close> block of \<^verbatim>\<open>measure_font_size\<close>:
  \<^item> \<^verbatim>\<open>wait_until\<close>: \<^verbatim>\<open>WebDriverWait(driver, 3).until(presence_of_element_located(...))\<close>;
    \<^verbatim>\<open>None\<close> when an element matching the selector is present within the 3 seconds,
    \<^verbatim>\<open>Some TimeoutException\<close> when none is, another exception when the wait itself fails;
  \<^item> \<^verbatim>\<open>find_element\<close>: \<^verbatim>\<open>driver.find_element\<close>, which raises
    \<^verbatim>\<open>NoSuchElementException\<close> when the element is no longer there;
  \<^item> \<^verbatim>\<open>font_size\<close>: the two \<^verbatim>\<open>execute_script\<close> calls and
    \<^verbatim>\<open>float(size.replace("px", ""))\<close>: the computed size in px, or the exception raised.
\<close>

record probe =
  wait_until :: "exc option"
  find_element :: "exc option"
  font_size :: "exc + rat"

definition try_body :: "probe \<Rightarrow> exc + rat" where
  "try_body p =
     (case wait_until p of
        Some e \<Rightarrow> Inl e
      | None \<Rightarrow>
          (case find_element p of
             Some e \<Rightarrow> Inl e
           | None \<Rightarrow> font_size p))"

fun except_clauses :: "exc \<Rightarrow> rat option \<times> string \<times> string option" where
  "except_clauses TimeoutException =
     (None, ''Timeout'', Some ''Element nicht innerhalb von 3s gefunden'')"
| "except_clauses NoSuchElementException =
     (None, ''Nicht gefunden'', Some ''Selektor matched kein Element'')"
| "except_clauses e = (None, ''Fehler'', Some (str_exc e))"

definition measure_font_size :: "probe \<Rightarrow> rat option \<times> string \<times> string option" where
  "measure_font_size p =
     (case try_body p of
        Inr px \<Rightarrow> (Some px, check_mark, None)
      | Inl e \<Rightarrow> except_clauses e)"

text \<open>\<^verbatim>\<open>set_font_scale\<close> runs one script in the browser and catches every exception; its
  result is not used by the caller.\<close>

definition set_font_scale :: "exc option \<Rightarrow> bool" where
  "set_font_scale script = (case script of None \<Rightarrow> True | Some e \<Rightarrow> False)"

subsection \<open>Result rows\<close>

text \<open>A row of \<^verbatim>\<open>results\<close>: the dict with the eight keys \<^verbatim>\<open>Komponente\<close>,
  \<^verbatim>\<open>Beschreibung\<close>, \<^verbatim>\<open>CSS-Selektor\<close>, \<^verbatim>\<open>Skalierung\<close>, \<^verbatim>\<open>Gemessene Groesse (px)\<close>,
  \<^verbatim>\<open>Erwartet (px)\<close>, \<^verbatim>\<open>Status\<close> and \<^verbatim>\<open>Abweichung\<close>.\<close>

record row =
  Komponente :: string
  Beschreibung :: string
  CSS_Selektor :: string
  Skalierung :: string
  Gemessene_Groesse :: string
  Erwartet :: int
  Status :: string
  Abweichung :: string

text \<open>\<^verbatim>\<open>comp.get("description", "")\<close> and \<^verbatim>\<open>error or "N/A"\<close>.\<close>

definition get_description :: "component \<Rightarrow> string" where
  "get_description cmp = (case comp_description cmp of None \<Rightarrow> [] | Some d \<Rightarrow> d)"

definition error_or_na :: "string option \<Rightarrow> string" where
  "error_or_na error =
     (case error of None \<Rightarrow> ''N/A'' | Some m \<Rightarrow> if m = [] then ''N/A'' else m)"

text \<open>\<^verbatim>\<open>abweichung = round(measured - expected_px, 2)\<close>.\<close>

definition abweichung :: "rat \<Rightarrow> int \<Rightarrow> rat" where
  "abweichung measured expected_px = py_round2 (measured - of_int expected_px)"

text \<open>The body of the inner loop after the measurement: the row appended for one component
  under one preset. A measured size gives the first row; \<^verbatim>\<open>measured is None\<close> gives the
  second, after which the loop continues with the next component.\<close>

definition measure_row ::
  "string \<Rightarrow> int \<Rightarrow> component \<Rightarrow> rat option \<times> string \<times> string option \<Rightarrow> row" where
  "measure_row label expected_px cmp m =
     (case m of
        (Some measured, status0, error) \<Rightarrow>
          \<lparr>Komponente = comp_name cmp,
            Beschreibung = get_description cmp,
            CSS_Selektor = comp_selector cmp,
            Skalierung = label,
            Gemessene_Groesse = fmt_1f measured,
            Erwartet = expected_px,
            Status = (if \<bar>abweichung measured expected_px\<bar> \<le> 1 then check_mark
                      else cross_mark),
            Abweichung = fmt_plus_1f (abweichung measured expected_px)\<rparr>
      | (None, status0, error) \<Rightarrow>
          \<lparr>Komponente = comp_name cmp,
            Beschreibung = get_description cmp,
            CSS_Selektor = comp_selector cmp,
            Skalierung = label,
            Gemessene_Groesse = status0,
            Erwartet = expected_px,
            Status = cross_mark,
            Abweichung = error_or_na error\<rparr>)"

subsection \<open>The environment of a run\<close>

text \<open>
  \<^item> \<^verbatim>\<open>env_config\<close>: what is found at the \<^verbatim>\<open>--config\<close> path;
  \<^item> \<^verbatim>\<open>chrome_start\<close>, \<^verbatim>\<open>set_timeout\<close>: whether \<^verbatim>\<open>webdriver.Chrome(...)\<close> and
    \<^verbatim>\<open>driver.set_page_load_timeout(30)\<close> raise;
  \<^item> \<^verbatim>\<open>get_first\<close>, \<^verbatim>\<open>get_retry\<close>: whether the first \<^verbatim>\<open>driver.get\<close> and the retry raise;
  \<^item> \<^verbatim>\<open>body_wait\<close>: whether the 15 second wait for the \<^verbatim>\<open>body\<close> element raises;
  \<^item> \<^verbatim>\<open>scale_script i\<close>: whether the script of \<^verbatim>\<open>set_font_scale\<close> raises for preset \<^verbatim>\<open>i\<close>;
  \<^item> \<^verbatim>\<open>probe_at i j\<close>: the browser's answers while component \<^verbatim>\<open>j\<close> is measured under
    preset \<^verbatim>\<open>i\<close>;
  \<^item> \<^verbatim>\<open>open_report\<close>, \<^verbatim>\<open>open_csv\<close>: whether opening the two output files raises;
  \<^item> \<^verbatim>\<open>quit_raises\<close>: whether \<^verbatim>\<open>driver.quit()\<close> raises;
  \<^item> \<^verbatim>\<open>clock\<close>: the \<^verbatim>\<open>time.strftime\<close> string.
\<close>

record world =
  env_config :: config_file
  chrome_start :: "exc option"
  set_timeout :: "exc option"
  get_first :: "exc option"
  get_retry :: "exc option"
  body_wait :: "exc option"
  scale_script :: "nat \<Rightarrow> exc option"
  probe_at :: "nat \<Rightarrow> nat \<Rightarrow> probe"
  open_report :: "exc option"
  open_csv :: "exc option"
  quit_raises :: "exc option"
  clock :: string

record args =
  arg_url :: string
  arg_config :: string
  arg_output :: string
  arg_csv :: string
  arg_no_headless :: bool

definition init_driver :: "world \<Rightarrow> bool \<Rightarrow> abort + unit" where
  "init_driver w headless =
     (case chrome_start w of
        Some e \<Rightarrow> Inl (SystemExit 1)
      | None \<Rightarrow>
          (case set_timeout w of
             Some e \<Rightarrow> Inl (SystemExit 1)
           | None \<Rightarrow> Inr ()))"

subsection \<open>The two loops\<close>

fun measure_components ::
  "(nat \<Rightarrow> probe) \<Rightarrow> string \<Rightarrow> int \<Rightarrow> nat \<Rightarrow> component list \<Rightarrow> row list \<Rightarrow> row list" where
  "measure_components browser label expected_px j [] results = results"
| "measure_components browser label expected_px j (cmp # rest) results =
     measure_components browser label expected_px (Suc j) rest
       (results @ [measure_row label expected_px cmp (measure_font_size (browser j))])"

fun measure_scales ::
  "world \<Rightarrow> component list \<Rightarrow> nat \<Rightarrow> (string \<times> rat \<times> int) list \<Rightarrow> row list \<Rightarrow> row list" where
  "measure_scales w selectors i [] results = results"
| "measure_scales w selectors i ((label, scale, expected_px) # rest) results =
     (let scale_was_set = set_font_scale (scale_script w i)
      in measure_scales w selectors (Suc i) rest
           (measure_components (probe_at w i) label expected_px 0 selectors results))"

subsection \<open>The two reports\<close>

text \<open>One table line of the Markdown report, as the f-string writes it.\<close>

definition md_row :: "row \<Rightarrow> string" where
  "md_row r =
     ''| '' @ Komponente r @ '' '' @
     ''| '' @ Beschreibung r @ '' '' @
     ''| `'' @ CSS_Selektor r @ ''` '' @
     ''| '' @ Skalierung r @ '' '' @
     ''| '' @ Gemessene_Groesse r @ '' '' @
     ''| '' @ str_int (Erwartet r) @ '' '' @
     ''| '' @ Status r @ '' '' @
     ''| '' @ Abweichung r @ '' |'' @ nl"

text \<open>The six \<^verbatim>\<open>f.write\<close> calls before the table lines.\<close>

definition md_head :: "string \<Rightarrow> string \<Rightarrow> string list" where
  "md_head now url =
     [''# Font Size Measurement Report'' @ nl @ nl,
      ''**Datum:** '' @ now @ nl @ nl,
      ''**URL:** '' @ url @ nl @ nl,
      ''## Ergebnisse'' @ nl @ nl,
      ''| Komponente | Beschreibung | CSS-Selektor | Skalierung | Gemessen (px) | Erwartet (px) | Status | Abweichung |'' @ nl,
      ''|------------|--------------|--------------|------------|---------------|---------------|--------|------------|'' @ nl]"

text \<open>\<^verbatim>\<open>passed = sum(1 for r in results if r['Status'] == check mark)\<close>.\<close>

definition passed_count :: "row list \<Rightarrow> nat" where
  "passed_count results = length (filter (\<lambda>r. Status r = check_mark) results)"

definition failed_count :: "row list \<Rightarrow> nat" where
  "failed_count results = length results - passed_count results"

text \<open>\<^verbatim>\<open>100*n/total\<close>: true division, which raises \<^verbatim>\<open>ZeroDivisionError\<close> for a zero
  divisor.\<close>

definition percent :: "nat \<Rightarrow> nat \<Rightarrow> exc + rat" where
  "percent n n_total =
     (if n_total = 0 then Inl ZeroDivisionError else Inr (100 * of_nat n / of_nat n_total))"

text \<open>
  The body of the \<^verbatim>\<open>with open(args.output, ...)\<close> block: the chunks written to the file, in
  order, and the exception that ended the block, if any. A chunk is written only after its
  f-string has been evaluated, so a failing division leaves the file with the chunks before
  it.
\<close>

definition write_markdown :: "string \<Rightarrow> string \<Rightarrow> row list \<Rightarrow> string list \<times> exc option" where
  "write_markdown now url results =
     (let table = md_head now url @ map md_row results;
          n_total = length results;
          passed = passed_count results;
          failed = failed_count results;
          upto_total = table @
            [nl @ ''## Zusammenfassung'' @ nl @ nl,
             ''- **Gesamt:** '' @ str_nat n_total @ '' Messungen'' @ nl]
      in case percent passed n_total of
           Inl e \<Rightarrow> (upto_total, Some e)
         | Inr p \<Rightarrow>
             (let upto_passed = upto_total @
                    [''- **Bestanden:** '' @ str_nat passed @ '' ('' @ fmt_1f p @ ''%)'' @ nl]
              in case percent failed n_total of
                   Inl e \<Rightarrow> (upto_passed, Some e)
                 | Inr q \<Rightarrow>
                     (upto_passed @
                        [''- **Fehlgeschlagen:** '' @ str_nat failed @ '' ('' @ fmt_1f q
                           @ ''%)'' @ nl],
                      None)))"

text \<open>The CSV report as the records handed to \<^verbatim>\<open>writer.writerow\<close>, each a list of eight
  fields; \<^verbatim>\<open>csv.writer\<close> writes a non-string field as its \<^verbatim>\<open>str()\<close>. The quoting and the line
  ends are the library's and are not modelled.\<close>

definition csv_head :: "string list" where
  "csv_head =
     [''Komponente'', ''Beschreibung'', ''CSS-Selektor'', ''Skalierung'',
      ''Gemessene Gr'' @ [CHR 0xC3, CHR 0xB6, CHR 0xC3, CHR 0x9F] @ ''e (px)'',
      ''Erwartet (px)'', ''Status'', ''Abweichung'']"

definition csv_row :: "row \<Rightarrow> string list" where
  "csv_row r =
     [Komponente r,
      Beschreibung r,
      CSS_Selektor r,
      Skalierung r,
      Gemessene_Groesse r,
      str_int (Erwartet r),
      Status r,
      Abweichung r]"

definition write_csv :: "row list \<Rightarrow> string list list" where
  "write_csv results = csv_head # map csv_row results"


subsection \<open>The run\<close>

text \<open>
  What a run leaves behind: how it ended (\<^verbatim>\<open>None\<close> when \<^verbatim>\<open>main\<close> returns), whether a browser
  session was started, how often \<^verbatim>\<open>driver.quit()\<close> was called, the accumulated \<^verbatim>\<open>results\<close>,
  and what was written to the two output files (\<^verbatim>\<open>None\<close> for a file that was not opened).
\<close>

record run =
  exit_with :: "abort option"
  session_started :: bool
  quit_calls :: nat
  run_results :: "row list"
  md_file :: "string list option"
  csv_file :: "string list list option"

text \<open>\<^verbatim>\<open>driver.get(args.url)\<close>, retried once when it raises.\<close>

definition load_page :: "world \<Rightarrow> exc option" where
  "load_page w = (case get_first w of None \<Rightarrow> None | Some e \<Rightarrow> get_retry w)"

definition stopped :: "exc \<Rightarrow> row list \<Rightarrow> string list option \<Rightarrow> run" where
  "stopped e results md =
     \<lparr>exit_with = Some (Uncaught e), session_started = True, quit_calls = 0,
      run_results = results, md_file = md, csv_file = None\<rparr>"

text \<open>The body of the \<^verbatim>\<open>try\<close> block of \<^verbatim>\<open>main\<close>.\<close>

definition try_block :: "world \<Rightarrow> args \<Rightarrow> component list \<Rightarrow> run" where
  "try_block w a selectors =
     (case load_page w of
        Some e \<Rightarrow> stopped e [] None
      | None \<Rightarrow>
     (case body_wait w of
        Some e \<Rightarrow> stopped e [] None
      | None \<Rightarrow>
     (let results = measure_scales w selectors 0 FONT_SCALES []
      in case open_report w of
           Some e \<Rightarrow> stopped e results None
         | None \<Rightarrow>
     (case write_markdown (clock w) (arg_url a) results of
        (md, Some e) \<Rightarrow> stopped e results (Some md)
      | (md, None) \<Rightarrow>
     (case open_csv w of
        Some e \<Rightarrow> stopped e results (Some md)
      | None \<Rightarrow>
          \<lparr>exit_with = None, session_started = True, quit_calls = 0,
            run_results = results, md_file = Some md,
            csv_file = Some (write_csv results)\<rparr>)))))"

text \<open>The \<^verbatim>\<open>finally\<close> clause: \<^verbatim>\<open>driver.quit()\<close> is called however the \<^verbatim>\<open>try\<close> block ended;
  an exception raised by the call replaces the one in flight.\<close>

definition finally_quit :: "world \<Rightarrow> run \<Rightarrow> run" where
  "finally_quit w r =
     r\<lparr>quit_calls := quit_calls r + 1,
       exit_with := (case quit_raises w of
                       Some e \<Rightarrow> Some (Uncaught e)
                     | None \<Rightarrow> exit_with r)\<rparr>"

definition exited :: "abort \<Rightarrow> bool \<Rightarrow> run" where
  "exited x started =
     \<lparr>exit_with = Some x, session_started = started, quit_calls = 0,
      run_results = [], md_file = None, csv_file = None\<rparr>"

definition main :: "world \<Rightarrow> args \<Rightarrow> run" where
  "main w a =
     (case load_selectors (env_config w) of
        Inl x \<Rightarrow> exited x False
      | Inr selectors \<Rightarrow>
          (case init_driver w (\<not> arg_no_headless a) of
             Inl x \<Rightarrow> exited x (chrome_start w = None)
           | Inr driver \<Rightarrow> finally_quit w (try_block w a selectors)))"

subsection \<open>Example inputs\<close>

text \<open>A component, the default command line, a probe that finds an element of a given
  computed size, and a probe for a selector that matches nothing within the wait.\<close>

definition example_component :: component where
  "example_component =
     \<lparr>comp_name = ''Button'', comp_selector = ''button'', comp_description = None\<rparr>"

definition default_args :: args where
  "default_args =
     \<lparr>arg_url = ''http://localhost:5173'', arg_config = ''font_selectors.json'',
      arg_output = ''font_report.md'', arg_csv = ''font_report.csv'',
      arg_no_headless = False\<rparr>"

definition found :: "rat \<Rightarrow> probe" where
  "found px = \<lparr>wait_until = None, find_element = None, font_size = Inr px\<rparr>"

definition timed_out :: probe where
  "timed_out =
     \<lparr>wait_until = Some TimeoutException, find_element = None, font_size = Inr 14\<rparr>"

text \<open>A world in which the configuration holds the given components, the browser starts,
  the page loads and both files open; every element has a computed size of 14 px, except
  that under the first preset no selector matches.\<close>

definition calm_world :: "component list \<Rightarrow> world" where
  "calm_world selectors =
     \<lparr>env_config = Loaded selectors,
      chrome_start = None, set_timeout = None,
      get_first = None, get_retry = None, body_wait = None,
      scale_script = (\<lambda>i. None),
      probe_at = (\<lambda>i j. if i = 0 then timed_out else found 14),
      open_report = None, open_csv = None, quit_raises = None,
      clock = ''2025-01-01 12:00:00''\<rparr>"


section \<open>Button-size scraper: properties\<close>

subsection \<open>Facts about substring containment and the token loop\<close>

lemma str_in_iff: "str_in t s \<longleftrightarrow> (\<exists>p q. s = p @ t @ q)"
proof (induction s)
  case Nil
  then show ?case by simp
next
  case (Cons c cs)
  show ?case
  proof
    assume "str_in t (c # cs)"
    then consider "prefix t (c # cs)" | "str_in t cs" by auto
    then show "\<exists>p q. c # cs = p @ t @ q"
    proof cases
      case 1
      then obtain q where "c # cs = t @ q" by (auto simp: prefix_def)
      then have "c # cs = [] @ t @ q" by simp
      then show ?thesis by blast
    next
      case 2
      with Cons.IH obtain p q where "cs = p @ t @ q" by blast
      then have "c # cs = (c # p) @ t @ q" by simp
      then show ?thesis by blast
    qed
  next
    assume "\<exists>p q. c # cs = p @ t @ q"
    then obtain p q where pq: "c # cs = p @ t @ q" by blast
    show "str_in t (c # cs)"
    proof (cases p)
      case Nil
      with pq have "prefix t (c # cs)" by (simp add: prefix_def)
      then show ?thesis by simp
    next
      case (Cons a p')
      with pq have "cs = p' @ t @ q" by simp
      with Cons.IH have "str_in t cs" by blast
      then show ?thesis by simp
    qed
  qed
qed

lemma first_token_None:
  "first_token ks s = None \<longleftrightarrow> (\<forall>k \<in> set ks. \<not> str_in k s)"
  by (induction ks) auto

lemma first_token_Some:
  "first_token ks s = Some t \<Longrightarrow>
     \<exists>pre post. ks = pre @ t # post \<and> str_in t s \<and> (\<forall>k \<in> set pre. \<not> str_in k s)"
proof (induction ks)
  case Nil
  then show ?case by simp
next
  case (Cons k ks)
  show ?case
  proof (cases "str_in k s")
    case True
    with Cons.prems have "k = t" by simp
    with True have "k # ks = [] @ t # ks \<and> str_in t s \<and> (\<forall>k \<in> set []. \<not> str_in k s)"
      by simp
    then show ?thesis by blast
  next
    case False
    with Cons.prems have "first_token ks s = Some t" by simp
    with Cons.IH obtain pre post where
      "ks = pre @ t # post" "str_in t s" "\<forall>k \<in> set pre. \<not> str_in k s" by blast
    with False have "k # ks = (k # pre) @ t # post \<and> str_in t s
        \<and> (\<forall>x \<in> set (k # pre). \<not> str_in x s)" by simp
    then show ?thesis by blast
  qed
qed

lemma keys_nonempty: "\<forall>k \<in> set (keys TW_H_MAP). k \<noteq> []"
  by (simp add: keys_def TW_H_MAP_def)

lemma h_token_occurs: "h_token cls = Some t \<Longrightarrow> str_in t cls"
  unfolding h_token_def using first_token_Some by blast

lemma h_token_key: "h_token cls = Some t \<Longrightarrow> t \<in> set (keys TW_H_MAP)"
proof -
  assume a: "h_token cls = Some t"
  then obtain pre post where "keys TW_H_MAP = pre @ t # post"
    unfolding h_token_def using first_token_Some by blast
  then show "t \<in> set (keys TW_H_MAP)" by simp
qed

lemma h_token_nonempty: "h_token cls = Some t \<Longrightarrow> t \<noteq> []"
  using h_token_key keys_nonempty by blast

lemma h_token_None: "h_token cls = None \<longleftrightarrow> (\<forall>k \<in> set (keys TW_H_MAP). \<not> str_in k cls)"
  by (simp add: h_token_def first_token_None)

lemma map_of_key: "t \<in> set (keys d) \<Longrightarrow> \<exists>v. map_of d t = Some v"
  by (induction d) (auto simp: keys_def)

lemma height_px_token:
  assumes "\<not> h_var cls" and "h_token cls = Some t"
  shows "map_of TW_H_MAP t = Some (height_px cls)"
proof -
  from assms(2) have "t \<in> set (keys TW_H_MAP)" by (rule h_token_key)
  then have "\<exists>v. map_of TW_H_MAP t = Some v" by (rule map_of_key)
  then obtain v where v: "map_of TW_H_MAP t = Some v" ..
  from assms(2) have "t \<noteq> []" by (rule h_token_nonempty)
  with assms v have "height_px cls = v"
    by (simp add: height_px_def truthy_def dict_get_def)
  with v show ?thesis by simp
qed

lemma h_token_earlier:
  assumes "h_token cls = Some t"
  shows "\<forall>k \<in> set (takeWhile (\<lambda>k. k \<noteq> t) (keys TW_H_MAP)). \<not> str_in k cls"
proof -
  from assms obtain pre post where pp: "keys TW_H_MAP = pre @ t # post"
    and no: "\<forall>k \<in> set pre. \<not> str_in k cls" and occ: "str_in t cls"
    unfolding h_token_def using first_token_Some by blast
  from no occ have "t \<notin> set pre" by blast
  then have "takeWhile (\<lambda>k. k \<noteq> t) (pre @ t # post) = pre"
    by (induction pre) auto
  with pp have "takeWhile (\<lambda>k. k \<noteq> t) (keys TW_H_MAP) = pre"
    by simp
  with no show ?thesis by simp
qed

subsection \<open>Claims about the derived height\<close>

text \<open>
  Claim C3, as the code has it. The height is derived by precedence: a class string that
  contains the height variable \<^verbatim>\<open>h-[var(--ui-button-height)]\<close> gets the fixed string
  \<^verbatim>\<open>32px (var(--ui-button-height))\<close>, whatever tokens it also contains; otherwise, if
  some key of the table occurs in the class string, the height is the pixel value of the
  token the loop has picked; otherwise the height is the fallback placeholder.
\<close>

theorem height_px_by_precedence:
  "(h_var cls \<longrightarrow> height_px cls = var_height) \<and>
   (\<not> h_var cls \<and> (\<exists>t \<in> set (keys TW_H_MAP). str_in t cls) \<longrightarrow>
      (\<exists>t. h_token cls = Some t \<and> str_in t cls \<and> map_of TW_H_MAP t = Some (height_px cls))) \<and>
   (\<not> h_var cls \<and> (\<forall>t \<in> set (keys TW_H_MAP). \<not> str_in t cls) \<longrightarrow>
      height_px cls = default_height)"
proof (intro conjI impI)
  assume "h_var cls"
  then show "height_px cls = var_height" by (simp add: height_px_def)
next
  assume a: "\<not> h_var cls \<and> (\<exists>t \<in> set (keys TW_H_MAP). str_in t cls)"
  then have "h_token cls \<noteq> None" by (simp add: h_token_None)
  then obtain t where t: "h_token cls = Some t" by (cases "h_token cls") simp_all
  from t have occ: "str_in t cls" by (rule h_token_occurs)
  from a have "\<not> h_var cls" ..
  then have "map_of TW_H_MAP t = Some (height_px cls)" using t by (rule height_px_token)
  with t occ show "\<exists>t. h_token cls = Some t \<and> str_in t cls
      \<and> map_of TW_H_MAP t = Some (height_px cls)" by simp
next
  assume a: "\<not> h_var cls \<and> (\<forall>t \<in> set (keys TW_H_MAP). \<not> str_in t cls)"
  then have "h_token cls = None" by (simp add: h_token_None)
  with a show "height_px cls = default_height"
    by (simp add: height_px_def truthy_def)
qed

theorem height_px_by_precedence_witness:
  "height_px ''h-[var(--ui-button-height)] px-2'' = var_height \<and>
   height_px ''px-2 h-8'' = ''32px'' \<and>
   height_px ''px-2 text-ui-sm'' = default_height"
proof -
  let ?a = "''h-[var(--ui-button-height)] px-2''"
  let ?b = "''px-2 h-8''"
  let ?c = "''px-2 text-ui-sm''"
  have v: "h_var ?a"
    by (simp add: h_var_def height_var_def)
  have tok: "\<not> h_var ?b \<and> (\<exists>t \<in> set (keys TW_H_MAP). str_in t ?b)"
    by (simp add: h_var_def height_var_def keys_def TW_H_MAP_def)
  have notok: "\<not> h_var ?c \<and> (\<forall>t \<in> set (keys TW_H_MAP). \<not> str_in t ?c)"
    by (simp add: h_var_def height_var_def keys_def TW_H_MAP_def)
  have ht: "h_token ?b = Some ''h-8''"
    by (simp add: h_token_def keys_def TW_H_MAP_def)
  note A = height_px_by_precedence [of ?a]
  note B = height_px_by_precedence [of ?b]
  note C = height_px_by_precedence [of ?c]
  have 1: "height_px ?a = var_height"
    by (rule mp [OF conjunct1 [OF A] v])
  have "\<exists>t. h_token ?b = Some t \<and> str_in t ?b \<and> map_of TW_H_MAP t = Some (height_px ?b)"
    by (rule mp [OF conjunct1 [OF conjunct2 [OF B]] tok])
  then obtain t where t: "h_token ?b = Some t" "map_of TW_H_MAP t = Some (height_px ?b)"
    by (elim exE conjE)
  from t(1) ht have "t = ''h-8''" by (simp only: option.inject)
  with t(2) have 2: "height_px ?b = ''32px''" by (simp add: TW_H_MAP_def)
  have 3: "height_px ?c = default_height"
    by (rule mp [OF conjunct2 [OF conjunct2 [OF C]] notok])
  from 1 2 3 show ?thesis by (intro conjI)
qed

text \<open>
  Claim C3 as stated fails where a recognized token and the height variable occur together:
  the class string \<^verbatim>\<open>h-9 h-[var(--ui-button-height)]\<close> contains the standalone token
  \<^verbatim>\<open>h-9\<close> (36px in the table), and the derived height is the variable's string, which is
  no pixel value of the table.
\<close>

theorem token_height_overridden_by_variable:
  "str_in ''h-9'' ''h-9 h-[var(--ui-button-height)]'' \<and>
   ''h-9'' \<in> set (classes ''h-9 h-[var(--ui-button-height)]'') \<and>
   map_of TW_H_MAP ''h-9'' = Some ''36px'' \<and>
   height_px ''h-9 h-[var(--ui-button-height)]'' \<noteq> ''36px'' \<and>
   height_px ''h-9 h-[var(--ui-button-height)]'' \<notin> set (map snd TW_H_MAP)"
  by (simp add: classes_def TW_H_MAP_def height_px_def h_var_def height_var_def var_height_def)

text \<open>
  Claim C10. Token recognition is substring containment, and the first key of the table (in
  table order) that occurs in the class string wins: \<^verbatim>\<open>h_token\<close> is \<^verbatim>\<open>None\<close> exactly when
  no key occurs; when it is a token, that token is a key, occurs as a substring, no key before
  it in the table occurs, and (the height variable being absent) its pixel value is the
  derived height. The class string \<^verbatim>\<open>h-40\<close> has no standalone recognized token, and
  \<^verbatim>\<open>16px\<close> is derived from the substring \<^verbatim>\<open>h-4\<close>; in \<^verbatim>\<open>h-10 h-4\<close> the token
  \<^verbatim>\<open>h-10\<close> comes first in the string, and the earlier table entry \<^verbatim>\<open>h-4\<close> is chosen.
\<close>

theorem h_token_first_substring:
  "(h_token cls = None \<longleftrightarrow> (\<forall>k \<in> set (keys TW_H_MAP). \<not> str_in k cls)) \<and>
   (h_token cls = Some t \<longrightarrow>
      t \<in> set (keys TW_H_MAP) \<and> str_in t cls \<and>
      (\<forall>k \<in> set (takeWhile (\<lambda>k. k \<noteq> t) (keys TW_H_MAP)). \<not> str_in k cls) \<and>
      (\<not> h_var cls \<longrightarrow> map_of TW_H_MAP t = Some (height_px cls))) \<and>
   (\<forall>k \<in> set (keys TW_H_MAP). k \<notin> set (classes ''h-40'')) \<and>
   height_px ''h-40'' = ''16px'' \<and>
   classes ''h-10 h-4'' = [''h-10'', ''h-4''] \<and>
   height_px ''h-10 h-4'' = ''16px''"
proof (intro conjI impI)
  show "h_token cls = None \<longleftrightarrow> (\<forall>k \<in> set (keys TW_H_MAP). \<not> str_in k cls)"
    by (rule h_token_None)
next
  assume "h_token cls = Some t"
  then show "t \<in> set (keys TW_H_MAP)" by (rule h_token_key)
next
  assume "h_token cls = Some t"
  then show "str_in t cls" by (rule h_token_occurs)
next
  assume "h_token cls = Some t"
  then show "\<forall>k \<in> set (takeWhile (\<lambda>k. k \<noteq> t) (keys TW_H_MAP)). \<not> str_in k cls"
    by (rule h_token_earlier)
next
  assume "h_token cls = Some t" and "\<not> h_var cls"
  then show "map_of TW_H_MAP t = Some (height_px cls)"
    by (simp add: height_px_token)
next
  show "\<forall>k \<in> set (keys TW_H_MAP). k \<notin> set (classes ''h-40'')"
    by (simp add: keys_def TW_H_MAP_def classes_def)
next
  show "height_px ''h-40'' = ''16px''"
    by (simp add: height_px_def h_var_def height_var_def h_token_def keys_def TW_H_MAP_def
        truthy_def dict_get_def)
next
  show "classes ''h-10 h-4'' = [''h-10'', ''h-4'']" by (simp add: classes_def)
next
  show "height_px ''h-10 h-4'' = ''16px''"
    by (simp add: height_px_def h_var_def height_var_def h_token_def keys_def TW_H_MAP_def
        truthy_def dict_get_def)
qed

theorem h_token_first_substring_witness:
  "h_token ''h-11 min-h-60'' = Some ''h-6'' \<and>
   str_in ''h-6'' ''h-11 min-h-60'' \<and>
   \<not> str_in ''h-4'' ''h-11 min-h-60'' \<and> \<not> str_in ''h-5'' ''h-11 min-h-60'' \<and>
   str_in ''h-11'' ''h-11 min-h-60'' \<and>
   height_px ''h-11 min-h-60'' = ''24px''"
proof -
  let ?c = "''h-11 min-h-60''"
  have ht: "h_token ?c = Some ''h-6''"
    by (simp add: h_token_def keys_def TW_H_MAP_def)
  have nv: "\<not> h_var ?c" by (simp add: h_var_def height_var_def)
  have tw: "takeWhile (\<lambda>k. k \<noteq> ''h-6'') (keys TW_H_MAP) = [''h-4'', ''h-5'']"
    by (simp add: keys_def TW_H_MAP_def)
  note T = mp [OF conjunct1 [OF conjunct2 [OF h_token_first_substring [of ?c "''h-6''"]]] ht]
  have occ: "str_in ''h-6'' ?c" by (rule conjunct1 [OF conjunct2 [OF T]])
  have "\<forall>k \<in> set (takeWhile (\<lambda>k. k \<noteq> ''h-6'') (keys TW_H_MAP)). \<not> str_in k ?c"
    by (rule conjunct1 [OF conjunct2 [OF conjunct2 [OF T]]])
  then have "\<forall>k \<in> set [''h-4'', ''h-5'']. \<not> str_in k ?c" by (simp only: tw)
  then have no4: "\<not> str_in ''h-4'' ?c" and no5: "\<not> str_in ''h-5'' ?c" by simp_all
  have "map_of TW_H_MAP ''h-6'' = Some (height_px ?c)"
    by (rule mp [OF conjunct2 [OF conjunct2 [OF conjunct2 [OF T]]] nv])
  then have h: "height_px ?c = ''24px''" by (simp add: TW_H_MAP_def)
  have big: "str_in ''h-11'' ?c" by simp
  from ht occ no4 no5 big h show ?thesis by (intro conjI)
qed

section \<open>Typography verification stub: properties\<close>

lemma check_case_Inr:
  assumes "check_case t = Inr (r, p)"
  shows "p \<and> status r = pass_status \<and> actual_size r = expected_size r
         \<and> res_component r = tc_component t \<and> expected_token r = tc_expected t
         \<and> map_of EXPECTED_SIZES (tc_expected t) = Some (expected_size r)"
  using assms
  by (auto simp: check_case_def dict_index_def Let_def split: option.splits)

lemma check_case_Inl:
  "check_case t = Inl e \<Longrightarrow> e = KeyError (tc_expected t) \<and> map_of EXPECTED_SIZES (tc_expected t) = None"
  by (auto simp: check_case_def dict_index_def Let_def split: option.splits)

lemma verify_loop_results:
  "verify_loop ts rs ap = (rs', ap', x) \<Longrightarrow>
     ap' = ap \<and> (\<exists>new. rs' = rs @ new \<and> length new \<le> length ts \<and>
        (x = None \<longrightarrow> length new = length ts) \<and>
        (\<forall>r \<in> set new. status r = pass_status \<and> actual_size r = expected_size r))"
proof (induction ts arbitrary: rs ap)
  case Nil
  then show ?case by simp
next
  case (Cons t ts)
  show ?case
  proof (cases "check_case t")
    case (Inl e)
    with Cons.prems show ?thesis by auto
  next
    case (Inr rp)
    obtain r p where rp: "rp = (r, p)" by (cases rp)
    with Inr have c: "check_case t = Inr (r, p)" by simp
    with Cons.prems have rest: "verify_loop ts (rs @ [r]) (ap \<and> p) = (rs', ap', x)" by simp
    from c have p: "p" and ok: "status r = pass_status" "actual_size r = expected_size r"
      using check_case_Inr by blast+
    from Cons.IH [OF rest] obtain new where
      new: "ap' = (ap \<and> p)" "rs' = (rs @ [r]) @ new" "length new \<le> length ts"
        "x = None \<longrightarrow> length new = length ts"
        "\<forall>r \<in> set new. status r = pass_status \<and> actual_size r = expected_size r"
      by blast
    from new ok have "rs' = rs @ (r # new) \<and> length (r # new) \<le> length (t # ts) \<and>
        (x = None \<longrightarrow> length (r # new) = length (t # ts)) \<and>
        (\<forall>y \<in> set (r # new). status y = pass_status \<and> actual_size y = expected_size y)"
      by simp
    with new(1) p show ?thesis by blast
  qed
qed

lemma table_loop:
  "verify_loop TEST_CASES [] True =
     (map (\<lambda>t. \<lparr>res_component = tc_component t, expected_token = tc_expected t,
                     expected_size = the (map_of EXPECTED_SIZES (tc_expected t)),
                     actual_size = the (map_of EXPECTED_SIZES (tc_expected t)),
                     status = pass_status\<rparr>) TEST_CASES, True, None)"
  by (simp add: TEST_CASES_def check_case_def dict_index_def EXPECTED_SIZES_def Let_def)




text \<open>
  Claim C6, as the code has it. The stub has no error handling, and its loop over the fixed
  table raises nothing: every expected token is a key of the size table. After the loop it
  opens the evidence file at a hard-coded absolute path; the call returns \<^verbatim>\<open>True\<close> when
  the file is opened, and when \<^verbatim>\<open>open\<close> raises, that exception leaves
  \<^verbatim>\<open>verify_typography\<close> and no evidence is written.
\<close>

theorem stub_fails_only_at_evidence_file:
  "snd (snd (verify_loop TEST_CASES [] True)) = None \<and>
   returned (verify_typography m) =
     (case open_w m evidence_path of None \<Rightarrow> Inr True | Some x \<Rightarrow> Inl x) \<and>
   (evidence_file (verify_typography m) = None) = (open_w m evidence_path \<noteq> None)"
  by (simp add: verify_typography_def table_loop split: option.splits)

text \<open>
  Claim C6 as stated fails on a machine where the directory of the hard-coded evidence path
  does not exist: \<^verbatim>\<open>open\<close> raises, and the run ends with that exception after the table
  has been printed.
\<close>

theorem stub_raises_without_evidence_directory:
  "returned (verify_typography no_such_directory) =
     Inl (OSError (''[Errno 2] No such file or directory: '' @ evidence_path)) \<and>
   evidence_file (verify_typography no_such_directory) = None \<and>
   length (printed_results (verify_typography no_such_directory)) = 11"
proof -
  have n: "length TEST_CASES = 11" by (simp add: TEST_CASES_def)
  show ?thesis
    by (simp add: verify_typography_def table_loop no_such_directory_def n)
qed

section \<open>Font-size auditor: properties\<close>

subsection \<open>Rounding, the loops and the counts\<close>

lemma marks_differ: "check_mark \<noteq> cross_mark"
  by (simp add: check_mark_def cross_mark_def)


lemma round_half_even_le:
  assumes "x \<le> of_int n"
  shows "round_half_even x \<le> n"
proof -
  have fl: "\<lfloor>x\<rfloor> \<le> n" using assms by (simp add: floor_le_iff) 
  show ?thesis
  proof (cases "\<lfloor>x\<rfloor> = n")
    case True
    with assms have "x - of_int \<lfloor>x\<rfloor> \<le> 0" by simp
    then show ?thesis using True by (simp add: round_half_even_def Let_def)
  next
    case False
    with fl have "\<lfloor>x\<rfloor> + 1 \<le> n" by simp
    with fl show ?thesis by (simp add: round_half_even_def Let_def)
  qed
qed

lemma round_half_even_ge:
  assumes "of_int n \<le> x"
  shows "n \<le> round_half_even x"
proof -
  have "n \<le> \<lfloor>x\<rfloor>" using assms by (simp add: le_floor_iff)
  then show ?thesis by (simp add: round_half_even_def Let_def)
qed


lemma py_round2_within_one:
  assumes "\<bar>x\<bar> \<le> 1"
  shows "\<bar>py_round2 x\<bar> \<le> 1"
proof -
  from assms have up: "x * 100 \<le> of_int 100" and dn: "of_int (- 100) \<le> x * 100"
    by simp_all
  have "round_half_even (x * 100) \<le> 100" using up by (rule round_half_even_le)
  moreover have "- 100 \<le> round_half_even (x * 100)" using dn by (rule round_half_even_ge)
  ultimately have "(of_int (round_half_even (x * 100)) :: rat) \<le> 100"
    and "- 100 \<le> (of_int (round_half_even (x * 100)) :: rat)"
    by linarith+
  then show ?thesis by (simp add: py_round2_def abs_if)
qed

lemma length_measure_components:
  "length (measure_components b l e j cs rs) = length rs + length cs"
  by (induction cs arbitrary: j rs) simp_all

lemma length_measure_scales:
  "length (measure_scales w sel i scs rs) = length rs + length scs * length sel"
proof (induction scs arbitrary: i rs)
  case Nil
  then show ?case by simp
next
  case (Cons sc scs)
  obtain l s e where sc: "sc = (l, s, e)" by (cases sc)
  show ?case by (simp add: sc Cons.IH length_measure_components Let_def)
qed

lemma passed_le_length: "passed_count rs \<le> length rs"
  by (simp add: passed_count_def)

subsection \<open>The reports and the run\<close>





lemma write_markdown_empty:
  "write_markdown now url [] =
     (md_head now url @
        [nl @ ''## Zusammenfassung'' @ nl @ nl, ''- **Gesamt:** 0 Messungen'' @ nl],
      Some ZeroDivisionError)"
  by (simp add: write_markdown_def percent_def passed_count_def failed_count_def
      str_nat.simps digit_def)



lemma finally_quit_fields:
  "quit_calls (finally_quit w r) = quit_calls r + 1"
  "run_results (finally_quit w r) = run_results r"
  "md_file (finally_quit w r) = md_file r"
  "csv_file (finally_quit w r) = csv_file r"
  "session_started (finally_quit w r) = session_started r"
  by (simp_all add: finally_quit_def)



lemma try_block_results:
  "load_page w = None \<Longrightarrow> body_wait w = None \<Longrightarrow>
     run_results (try_block w a sel) = measure_scales w sel 0 FONT_SCALES []"
  by (simp add: try_block_def stopped_def Let_def split: option.splits prod.splits)

lemma try_block_csv:
  assumes "csv_file (try_block w a sel) = Some csv"
  shows "run_results (try_block w a sel) = measure_scales w sel 0 FONT_SCALES [] \<and>
         csv = write_csv (run_results (try_block w a sel)) \<and>
         md_file (try_block w a sel) =
           Some (fst (write_markdown (clock w) (arg_url a) (run_results (try_block w a sel)))) \<and>
         snd (write_markdown (clock w) (arg_url a) (run_results (try_block w a sel))) = None"
  using assms
  by (auto simp: try_block_def stopped_def Let_def split: option.splits prod.splits)

lemma main_reached:
  assumes "load_selectors (env_config w) = Inr sel"
    and "init_driver w (\<not> arg_no_headless a) = Inr d"
  shows "main w a = finally_quit w (try_block w a sel)"
  using assms by (simp add: main_def)

text \<open>The clean-up is that of \<^verbatim>\<open>main\<close>: when \<^verbatim>\<open>set_page_load_timeout\<close> raises inside
  \<^verbatim>\<open>init_driver\<close>, the process exits there, before the driver is returned and the \<^verbatim>\<open>try\<close>
  block is entered.\<close>

lemma init_driver_exit_after_start:
  assumes "load_selectors (env_config w) = Inr sel"
    and "chrome_start w = None"
    and "set_timeout w = Some e"
  shows "main w a = exited (SystemExit 1) True"
  using assms by (simp add: main_def init_driver_def)


lemma length_FONT_SCALES: "length FONT_SCALES = 5"
  by (simp add: FONT_SCALES_def)

lemma length_results: "length (measure_scales w sel 0 FONT_SCALES []) = 5 * length sel"
  by (simp add: length_measure_scales length_FONT_SCALES)

lemma measure_font_size_timeout:
  "wait_until p = Some TimeoutException \<Longrightarrow>
     measure_font_size p = (None, ''Timeout'', Some ''Element nicht innerhalb von 3s gefunden'')"
  by (simp add: measure_font_size_def try_body_def)

lemma passed_count_insert:
  "passed_count (xs @ r # ys) =
     passed_count (xs @ ys) + (if Status r = check_mark then 1 else 0)"
  by (simp add: passed_count_def)

lemma failed_count_insert_failed:
  assumes "Status r \<noteq> check_mark"
  shows "failed_count (xs @ r # ys) = failed_count (xs @ ys) + 1"
proof -
  have "passed_count (xs @ ys) \<le> length (xs @ ys)" by (rule passed_le_length)
  with assms show ?thesis by (simp add: failed_count_def passed_count_insert)
qed

lemma calm_world_reached:
  "load_selectors (env_config (calm_world sel)) = Inr sel"
  "init_driver (calm_world sel) h = Inr ()"
  "load_page (calm_world sel) = None"
  "body_wait (calm_world sel) = None"
  "open_report (calm_world sel) = None"
  "open_csv (calm_world sel) = None"
  "quit_raises (calm_world sel) = None"
  by (simp_all add: calm_world_def init_driver_def load_page_def)


subsection \<open>Claims about the auditor\<close>



text \<open>
  Claim C4, as the code has it. When no element matches the selector within the wait, the
  wait raises \<^verbatim>\<open>TimeoutException\<close>, and \<^verbatim>\<open>measure_font_size\<close> returns no size, the label
  \<^verbatim>\<open>Timeout\<close> and the message \<^verbatim>\<open>Element nicht innerhalb von 3s gefunden\<close>. The row
  recorded has the cross as its status, the label in its measured-size field and the message
  in its deviation field. Wherever the row stands in the results, it adds nothing to the
  passed count and one to the failed count.
\<close>

theorem timeout_row_is_failed:
  assumes "wait_until p = Some TimeoutException"
  shows "measure_font_size p =
           (None, ''Timeout'', Some ''Element nicht innerhalb von 3s gefunden'') \<and>
         Status (measure_row label e c (measure_font_size p)) = cross_mark \<and>
         Gemessene_Groesse (measure_row label e c (measure_font_size p)) = ''Timeout'' \<and>
         Abweichung (measure_row label e c (measure_font_size p)) =
           ''Element nicht innerhalb von 3s gefunden'' \<and>
         passed_count (xs @ measure_row label e c (measure_font_size p) # ys) =
           passed_count (xs @ ys) \<and>
         failed_count (xs @ measure_row label e c (measure_font_size p) # ys) =
           failed_count (xs @ ys) + 1"
proof -
  let ?r = "measure_row label e c (measure_font_size p)"
  have m: "measure_font_size p =
      (None, ''Timeout'', Some ''Element nicht innerhalb von 3s gefunden'')"
    using assms by (rule measure_font_size_timeout)
  have s: "Status ?r = cross_mark" by (simp add: m measure_row_def)
  have g: "Gemessene_Groesse ?r = ''Timeout''" by (simp add: m measure_row_def)
  have d: "Abweichung ?r = ''Element nicht innerhalb von 3s gefunden''"
    by (simp add: m measure_row_def error_or_na_def)
  from s marks_differ have ne: "Status ?r \<noteq> check_mark" by simp
  then have pc: "passed_count (xs @ ?r # ys) = passed_count (xs @ ys)"
    by (simp add: passed_count_insert)
  from ne have fc: "failed_count (xs @ ?r # ys) = failed_count (xs @ ys) + 1"
    by (rule failed_count_insert_failed)
  from m s g d pc fc show ?thesis by (intro conjI)
qed

theorem timeout_row_is_failed_witness:
  "wait_until timed_out = Some TimeoutException \<and>
   Status (measure_row ''S'' 12 example_component (measure_font_size timed_out)) = cross_mark \<and>
   Gemessene_Groesse (measure_row ''S'' 12 example_component (measure_font_size timed_out))
     = ''Timeout'' \<and>
   passed_count [measure_row ''S'' 12 example_component (measure_font_size timed_out)] = 0 \<and>
   failed_count [measure_row ''S'' 12 example_component (measure_font_size timed_out)] = 1"
proof -
  let ?r = "measure_row ''S'' 12 example_component (measure_font_size timed_out)"
  have h: "wait_until timed_out = Some TimeoutException" by (simp add: timed_out_def)
  note T = timeout_row_is_failed [OF h, of "''S''" 12 example_component "[]" "[]"]
  have s: "Status ?r = cross_mark" by (rule conjunct1 [OF conjunct2 [OF T]])
  have g: "Gemessene_Groesse ?r = ''Timeout''"
    by (rule conjunct1 [OF conjunct2 [OF conjunct2 [OF T]]])
  have "passed_count ([] @ ?r # []) = passed_count ([] @ [])"
    by (rule conjunct1 [OF conjunct2 [OF conjunct2 [OF conjunct2 [OF conjunct2 [OF T]]]]])
  then have p: "passed_count [?r] = 0" by (simp add: passed_count_def)
  have "failed_count ([] @ ?r # []) = failed_count ([] @ []) + 1"
    by (rule conjunct2 [OF conjunct2 [OF conjunct2 [OF conjunct2 [OF conjunct2 [OF T]]]]])
  then have f: "failed_count [?r] = 1" by (simp add: failed_count_def passed_count_def)
  from h s g p f show ?thesis by (intro conjI)
qed

text \<open>
  Claim C4 as stated fails on the status: the status of the row of a selector that matched
  nothing within the wait is the cross, not a "not found" text (neither the English words
  nor the label \<^verbatim>\<open>Nicht gefunden\<close>, which belongs to \<^verbatim>\<open>NoSuchElementException\<close>); the
  label \<^verbatim>\<open>Timeout\<close> is in the measured-size field.
\<close>

theorem timeout_row_status_is_cross:
  "wait_until timed_out = Some TimeoutException \<and>
   Status (measure_row ''S'' 12 example_component (measure_font_size timed_out)) = cross_mark \<and>
   Status (measure_row ''S'' 12 example_component (measure_font_size timed_out)) \<noteq> ''not found'' \<and>
   Status (measure_row ''S'' 12 example_component (measure_font_size timed_out))
     \<noteq> ''Nicht gefunden'' \<and>
   Status (measure_row ''S'' 12 example_component (measure_font_size timed_out)) \<noteq> ''Timeout'' \<and>
   Gemessene_Groesse (measure_row ''S'' 12 example_component (measure_font_size timed_out))
     = ''Timeout''"
  by (simp add: timed_out_def measure_font_size_def try_body_def measure_row_def cross_mark_def)

text \<open>
  Claim C5. There are five presets. In every run that gets as far as the loops (the
  configuration is loaded, the browser starts and the page loads), the results are those of
  the two loops, whatever the browser answers to each measurement; their number is five
  times the number of configured components, and a CSV report that is written has the
  header and that many records.
\<close>

theorem rows_are_presets_times_components:
  assumes "load_selectors (env_config w) = Inr selectors"
    and "init_driver w (\<not> arg_no_headless a) = Inr d"
    and "load_page w = None"
    and "body_wait w = None"
  shows "length FONT_SCALES = 5 \<and>
         run_results (main w a) = measure_scales w selectors 0 FONT_SCALES [] \<and>
         length (run_results (main w a)) = 5 * length selectors \<and>
         (\<forall>csv. csv_file (main w a) = Some csv \<longrightarrow> length csv = 1 + 5 * length selectors)"
proof -
  have m: "main w a = finally_quit w (try_block w a selectors)"
    using assms(1,2) by (rule main_reached)
  have r: "run_results (main w a) = measure_scales w selectors 0 FONT_SCALES []"
    using assms(3,4) by (simp add: m finally_quit_fields try_block_results)
  have l: "length (run_results (main w a)) = 5 * length selectors"
    by (simp add: r length_results)
  have c: "\<forall>csv. csv_file (main w a) = Some csv \<longrightarrow> length csv = 1 + 5 * length selectors"
  proof (intro allI impI)
    fix csv
    assume "csv_file (main w a) = Some csv"
    then have "csv_file (try_block w a selectors) = Some csv"
      by (simp add: m finally_quit_fields)
    then have "csv = write_csv (run_results (try_block w a selectors))"
      by (rule try_block_csv [THEN conjunct2, THEN conjunct1])
    moreover have "run_results (try_block w a selectors) = run_results (main w a)"
      by (simp add: m finally_quit_fields)
    ultimately show "length csv = 1 + 5 * length selectors"
      by (simp add: write_csv_def l)
  qed
  from length_FONT_SCALES r l c show ?thesis by (intro conjI)
qed

theorem rows_are_presets_times_components_witness:
  "load_selectors (env_config (calm_world [example_component, example_component]))
     = Inr [example_component, example_component] \<and>
   init_driver (calm_world [example_component, example_component])
     (\<not> arg_no_headless default_args) = Inr () \<and>
   load_page (calm_world [example_component, example_component]) = None \<and>
   body_wait (calm_world [example_component, example_component]) = None \<and>
   length (run_results (main (calm_world [example_component, example_component]) default_args))
     = 10"
proof -
  let ?w = "calm_world [example_component, example_component]"
  note T = rows_are_presets_times_components
    [OF calm_world_reached(1) calm_world_reached(2) calm_world_reached(3) calm_world_reached(4),
      of "[example_component, example_component]" default_args]
  have "length (run_results (main ?w default_args))
      = 5 * length [example_component, example_component]"
    by (rule conjunct1 [OF conjunct2 [OF conjunct2 [OF T]]])
  then have "length (run_results (main ?w default_args)) = 10" by simp
  with calm_world_reached [of "[example_component, example_component]"] show ?thesis
    by (intro conjI) simp_all
qed





text \<open>
  Claim C9. With a configuration that is an empty array, a browser that starts, a page that
  loads and a report file that opens, the loops leave no rows, the summary divides by the
  total of zero and the \<^verbatim>\<open>try\<close> block ends with \<^verbatim>\<open>ZeroDivisionError\<close>: the Markdown report
  holds its heading, the summary title and the total line only, the CSV report is not
  written, the session is quit, and the run ends with the exception (or with the one that
  \<^verbatim>\<open>driver.quit()\<close> raises in its place).
\<close>

theorem empty_config_divides_by_zero:
  assumes "env_config w = Loaded []"
    and "init_driver w (\<not> arg_no_headless a) = Inr d"
    and "load_page w = None"
    and "body_wait w = None"
    and "open_report w = None"
  shows "run_results (main w a) = [] \<and>
         exit_with (try_block w a []) = Some (Uncaught ZeroDivisionError) \<and>
         md_file (main w a) =
           Some (md_head (clock w) (arg_url a) @
             [nl @ ''## Zusammenfassung'' @ nl @ nl, ''- **Gesamt:** 0 Messungen'' @ nl]) \<and>
         csv_file (main w a) = None \<and>
         quit_calls (main w a) = 1 \<and>
         exit_with (main w a) =
           Some (Uncaught (case quit_raises w of None \<Rightarrow> ZeroDivisionError | Some e \<Rightarrow> e))"
proof -
  have l: "load_selectors (env_config w) = Inr []" by (simp add: assms(1))
  have m: "main w a = finally_quit w (try_block w a [])"
    using l assms(2) by (rule main_reached)
  have rs: "measure_scales w [] 0 FONT_SCALES [] = []"
    using length_results [of w "[]"] by simp
  have t: "try_block w a [] =
      stopped ZeroDivisionError []
        (Some (md_head (clock w) (arg_url a) @
           [nl @ ''## Zusammenfassung'' @ nl @ nl, ''- **Gesamt:** 0 Messungen'' @ nl]))"
    by (simp add: try_block_def assms(3,4,5) rs write_markdown_empty)
  have 1: "run_results (main w a) = []"
    by (simp add: m t finally_quit_fields stopped_def)
  have 2: "exit_with (try_block w a []) = Some (Uncaught ZeroDivisionError)"
    by (simp add: t stopped_def)
  have 3: "md_file (main w a) =
           Some (md_head (clock w) (arg_url a) @
             [nl @ ''## Zusammenfassung'' @ nl @ nl, ''- **Gesamt:** 0 Messungen'' @ nl])"
    by (simp add: m t finally_quit_fields stopped_def)
  have 4: "csv_file (main w a) = None"
    by (simp add: m t finally_quit_fields stopped_def)
  have 5: "quit_calls (main w a) = 1"
    by (simp add: m t finally_quit_fields stopped_def)
  have 6: "exit_with (main w a) =
           Some (Uncaught (case quit_raises w of None \<Rightarrow> ZeroDivisionError | Some e \<Rightarrow> e))"
    by (simp add: m t finally_quit_def stopped_def split: option.splits)
  from 1 2 3 4 5 6 show ?thesis by (intro conjI)
qed

theorem empty_config_divides_by_zero_witness:
  "env_config (calm_world []) = Loaded [] \<and>
   init_driver (calm_world []) (\<not> arg_no_headless default_args) = Inr () \<and>
   load_page (calm_world []) = None \<and>
   body_wait (calm_world []) = None \<and>
   open_report (calm_world []) = None \<and>
   exit_with (main (calm_world []) default_args) = Some (Uncaught ZeroDivisionError) \<and>
   csv_file (main (calm_world []) default_args) = None \<and>
   quit_calls (main (calm_world []) default_args) = 1"
proof -
  have c: "env_config (calm_world []) = Loaded []" by (simp add: calm_world_def)
  note T = empty_config_divides_by_zero
    [OF c calm_world_reached(2) calm_world_reached(3) calm_world_reached(4)
      calm_world_reached(5), of default_args]
  have 4: "csv_file (main (calm_world []) default_args) = None"
    by (rule T [THEN conjunct2, THEN conjunct2, THEN conjunct2, THEN conjunct1])
  have 5: "quit_calls (main (calm_world []) default_args) = 1"
    by (rule T [THEN conjunct2, THEN conjunct2, THEN conjunct2, THEN conjunct2, THEN conjunct1])
  have "exit_with (main (calm_world []) default_args) =
      Some (Uncaught (case quit_raises (calm_world []) of
        None \<Rightarrow> ZeroDivisionError | Some e \<Rightarrow> e))"
    by (rule T [THEN conjunct2, THEN conjunct2, THEN conjunct2, THEN conjunct2, THEN conjunct2])
  then have 6: "exit_with (main (calm_world []) default_args) = Some (Uncaught ZeroDivisionError)"
    by (simp add: calm_world_reached(7))
  from c calm_world_reached(2) [of "[]" "\<not> arg_no_headless default_args"]
    calm_world_reached(3) [of "[]"] calm_world_reached(4) [of "[]"]
    calm_world_reached(5) [of "[]"] 6 4 5
  show ?thesis by (intro conjI)
qed

end
